theory Spec2Isabelle
  imports Complex_Main "HOL-Library.Word" "HOL-Library.Sublist"
begin

section \<open>Data model\<close>

text \<open>
  Bytes of a \<^verbatim>\<open>Uint8Array\<close> or \<^verbatim>\<open>ArrayBuffer\<close> are 8-bit words, a buffer is a list of
  them. JavaScript strings are modelled as \<^typ>\<open>string\<close>; an optional field
  (\<^verbatim>\<open>mimeType?: string\<close>) is an \<^typ>\<open>'a option\<close>, \<^verbatim>\<open>undefined\<close> being \<^term>\<open>None\<close>.
\<close>

type_synonym byte = "8 word"
type_synonym bytes = "byte list"

text \<open>
  Indexing a typed array out of range yields \<^verbatim>\<open>undefined\<close> and does not raise;
  \<^verbatim>\<open>bytes[i] === v\<close> is then false.
\<close>

definition byte_at :: "bytes \<Rightarrow> nat \<Rightarrow> byte option" where
  "byte_at bs i = (if i < length bs then Some (bs ! i) else None)"

subsection \<open>Types of types.ts and of the service's response\<close>

text \<open>
  \<^verbatim>\<open>ImgxOptions\<close> and \<^verbatim>\<open>ParsedPart\<close> of types.ts. The fields \<^verbatim>\<open>type\<close>, \<^verbatim>\<open>text\<close> and
  \<^verbatim>\<open>output\<close> are written \<open>type'\<close>, \<open>text'\<close> and \<open>output'\<close>.
\<close>

record ImgxOptions =
  verbose :: bool
  code :: bool
  images :: string
  json :: bool
  quiet :: bool
  model :: string
  system :: "string option"
  timeout :: "real option"

datatype part_type = Text | Thought | Code | Result | Image

record ParsedPart =
  type' :: part_type
  content :: string
  mimeType :: "string option"
  data :: "string option"

text \<open>
  The parts of a \<^verbatim>\<open>GenerateContentResponse\<close> that the program reads. Every field of the
  service's types is optional. The same \<^verbatim>\<open>Part\<close> type carries an image to the service.
\<close>

record Blob =
  blob_mimeType :: "string option"
  blob_data :: "string option"

record ExecutableCode =
  exec_code :: "string option"
  language :: "string option"

record CodeExecutionResult =
  outcome :: "string option"
  output' :: "string option"

record Part =
  thought :: "bool option"
  text' :: "string option"
  executableCode :: "ExecutableCode option"
  codeExecutionResult :: "CodeExecutionResult option"
  inlineData :: "Blob option"

record Content =
  parts :: "Part list option"

record Candidate =
  cand_content :: "Content option"

record GenerateContentResponse =
  candidates :: "Candidate list option"

text \<open>Truthiness of an optional string and of an optional boolean.\<close>

definition truthy :: "string option \<Rightarrow> bool" where
  "truthy v = (case v of None \<Rightarrow> False | Some s \<Rightarrow> s \<noteq> [])"

definition truthy_bool :: "bool option \<Rightarrow> bool" where
  "truthy_bool v = (case v of None \<Rightarrow> False | Some b \<Rightarrow> b)"

text \<open>The value of \<^verbatim>\<open>v ?? d\<close>.\<close>

definition orElse :: "'a option \<Rightarrow> 'a \<Rightarrow> 'a" where
  "orElse v d = (case v of None \<Rightarrow> d | Some x \<Rightarrow> x)"

subsection \<open>The world the program runs in\<close>

text \<open>
  The program's effects are explicit: \<open>files\<close> maps a path to the bytes stored there,
  \<open>dirs\<close> are the directories that exist, \<open>stdin\<close> holds the bytes piped in,
  \<open>stdout\<close> and \<open>stderr\<close> collect the arguments of \<^verbatim>\<open>console.log\<close> and
  \<^verbatim>\<open>console.error\<close>, one entry per call, and \<open>ticks\<close> counts the calls of
  \<^verbatim>\<open>Date.now()\<close> so far.
\<close>

record world =
  files :: "string \<rightharpoonup> bytes"
  dirs :: "string set"
  stdin :: bytes
  stdout :: "string list"
  stderr :: "string list"
  ticks :: nat

text \<open>
  What the platform decides is a parameter: \<open>resolve\<close> and \<open>join\<close> of the path
  module, the clock (\<open>now k\<close> is the value of the \<open>k\<close>-th call of \<^verbatim>\<open>Date.now()\<close>),
  \<^verbatim>\<open>fetch\<close>, the \<^verbatim>\<open>osascript\<close> helper of the clipboard source (given the temporary
  path and the files, it returns its exit code, its error text and the files it leaves)
  and \<^verbatim>\<open>JSON.stringify\<close>.
\<close>

record response =
  status :: nat
  content_type :: "string option"
  body :: bytes

datatype fetched = Rejected string | Responded response

record env =
  resolve :: "string \<Rightarrow> string"
  join :: "string \<Rightarrow> string \<Rightarrow> string"
  now :: "nat \<Rightarrow> int"
  fetch :: "string \<Rightarrow> fetched"
  osascript :: "string \<Rightarrow> (string \<rightharpoonup> bytes) \<Rightarrow> int \<times> string \<times> (string \<rightharpoonup> bytes)"
  stringify :: "ParsedPart list \<Rightarrow> string"

text \<open>
  \<^verbatim>\<open>process.exit(code)\<close> ends the run: nothing after it is executed. An exception that
  the function does not catch ends it the same way.
\<close>

datatype failure = Exit nat | TypeError

definition EXIT_SUCCESS :: nat where "EXIT_SUCCESS = 0"
definition EXIT_API_ERROR :: nat where "EXIT_API_ERROR = 1"
definition EXIT_INPUT_ERROR :: nat where "EXIT_INPUT_ERROR = 2"

definition console_error :: "string \<Rightarrow> world \<Rightarrow> world" where
  "console_error line w = w\<lparr>stderr := stderr w @ [line]\<rparr>"

definition console_log :: "string \<Rightarrow> world \<Rightarrow> world" where
  "console_log line w = w\<lparr>stdout := stdout w @ [line]\<rparr>"

text \<open>\<^verbatim>\<open>Date.now()\<close>: the next reading of the clock.\<close>

definition Date_now :: "env \<Rightarrow> world \<Rightarrow> int \<times> world" where
  "Date_now e w = (now e (ticks w), w\<lparr>ticks := Suc (ticks w)\<rparr>)"

section \<open>String operations of the runtime\<close>

text \<open>
  The string methods the program calls. Strings are lists of characters; the program
  applies these methods to MIME types, paths and source descriptors.
\<close>

text \<open>\<^verbatim>\<open>s.split(c)\<close> for a one-character separator: never empty, \<^verbatim>\<open>"".split("/")\<close> is \<^verbatim>\<open>[""]\<close>.\<close>

fun split :: "char \<Rightarrow> string \<Rightarrow> string list" where
  "split c [] = [[]]"
| "split c (x # xs) =
     (if x = c then [] # split c xs
      else (case split c xs of [] \<Rightarrow> [[x]] | w # ws \<Rightarrow> (x # w) # ws))"

text \<open>\<^verbatim>\<open>xs[i]\<close> on an array: \<^verbatim>\<open>undefined\<close> out of range.\<close>

definition item :: "'a list \<Rightarrow> nat \<Rightarrow> 'a option" where
  "item xs i = (if i < length xs then Some (xs ! i) else None)"

text \<open>\<^verbatim>\<open>s.replace(pat, rep)\<close> with a string pattern: the first occurrence only.\<close>

fun replace :: "string \<Rightarrow> string \<Rightarrow> string \<Rightarrow> string" where
  "replace pat rep [] = (if pat = [] then rep else [])"
| "replace pat rep (x # xs) =
     (if prefix pat (x # xs) then rep @ drop (length pat) (x # xs)
      else x # replace pat rep xs)"

text \<open>\<^verbatim>\<open>s.startsWith(p)\<close>.\<close>

definition startsWith :: "string \<Rightarrow> string \<Rightarrow> bool" where
  "startsWith s p = prefix p s"

text \<open>\<^verbatim>\<open>s.toLowerCase()\<close>, on the ASCII letters.\<close>

definition lower_char :: "char \<Rightarrow> char" where
  "lower_char c =
     (case map_of (zip ''ABCDEFGHIJKLMNOPQRSTUVWXYZ'' ''abcdefghijklmnopqrstuvwxyz'') c of
        None \<Rightarrow> c
      | Some l \<Rightarrow> l)"

definition toLowerCase :: "string \<Rightarrow> string" where
  "toLowerCase s = map lower_char s"

text \<open>\<^verbatim>\<open>s.trim()\<close>, on the ASCII white space.\<close>

definition is_space :: "char \<Rightarrow> bool" where
  "is_space c = (c \<in> set [CHR '' '', CHR 0x09, CHR 0x0A, CHR 0x0B, CHR 0x0C, CHR 0x0D])"

definition trim :: "string \<Rightarrow> string" where
  "trim s = rev (dropWhile is_space (rev (dropWhile is_space s)))"

text \<open>A number in a template literal: its decimal digits, with a sign when negative.\<close>

definition digit :: "nat \<Rightarrow> char" where
  "digit d = ''0123456789'' ! d"

function decimal :: "nat \<Rightarrow> string" where
  "decimal n = (if n < 10 then [digit n] else decimal (n div 10) @ [digit (n mod 10)])"
  by pat_completeness auto
termination
  by (relation "measure id") auto

declare decimal.simps [simp del]

definition number_text :: "int \<Rightarrow> string" where
  "number_text i = (if i < 0 then CHR ''-'' # decimal (nat (- i)) else decimal (nat i))"

section \<open>Base64 of the runtime's buffers\<close>

text \<open>
  \<^verbatim>\<open>Buffer.from(buffer).toString("base64")\<close> and \<^verbatim>\<open>Buffer.from(s, "base64")\<close> belong to the
  runtime, not to the repository. They are modelled after RFC 4648: the encoder emits the
  standard alphabet with \<^verbatim>\<open>=\<close> padding; the decoder is the runtime's lenient one, which
  also accepts the URL-safe alphabet, skips characters outside both alphabets, stops at
  the first \<^verbatim>\<open>=\<close> and drops a trailing group of fewer than two sextets.
\<close>

definition b64_alphabet :: string where
  "b64_alphabet = ''ABCDEFGHIJKLMNOPQRSTUVWXYZabcdefghijklmnopqrstuvwxyz0123456789+/''"

definition enc6 :: "nat \<Rightarrow> char" where
  "enc6 n = b64_alphabet ! n"

fun index_of :: "'a \<Rightarrow> 'a list \<Rightarrow> nat option" where
  "index_of x [] = None"
| "index_of x (y # ys) = (if x = y then Some 0 else map_option Suc (index_of x ys))"

definition dec6 :: "char \<Rightarrow> nat option" where
  "dec6 c =
     (if c = CHR ''-'' then Some 62 else if c = CHR ''_'' then Some 63
      else index_of c b64_alphabet)"

fun b64_encode :: "bytes \<Rightarrow> string" where
  "b64_encode [] = []"
| "b64_encode [a] =
     [enc6 (unat a div 4), enc6 (unat a mod 4 * 16), CHR ''='', CHR ''='']"
| "b64_encode [a, b] =
     [enc6 (unat a div 4), enc6 (unat a mod 4 * 16 + unat b div 16),
      enc6 (unat b mod 16 * 4), CHR ''='']"
| "b64_encode (a # b # c # rest) =
     [enc6 (unat a div 4), enc6 (unat a mod 4 * 16 + unat b div 16),
      enc6 (unat b mod 16 * 4 + unat c div 64), enc6 (unat c mod 64)] @ b64_encode rest"

fun b64_decode :: "nat list \<Rightarrow> bytes" where
  "b64_decode (s0 # s1 # s2 # s3 # rest) =
     [of_nat (s0 * 4 + s1 div 16), of_nat (s1 mod 16 * 16 + s2 div 4),
      of_nat (s2 mod 4 * 64 + s3)] @ b64_decode rest"
| "b64_decode [s0, s1, s2] = [of_nat (s0 * 4 + s1 div 16), of_nat (s1 mod 16 * 16 + s2 div 4)]"
| "b64_decode [s0, s1] = [of_nat (s0 * 4 + s1 div 16)]"
| "b64_decode [s0] = []"
| "b64_decode [] = []"

definition sextets :: "string \<Rightarrow> nat list" where
  "sextets s = List.map_filter dec6 (takeWhile (\<lambda>c. c \<noteq> CHR ''='') s)"

text \<open>\<^verbatim>\<open>Buffer.from(s, "base64")\<close>.\<close>

definition fromBase64 :: "string \<Rightarrow> bytes" where
  "fromBase64 s = b64_decode (sextets s)"

section \<open>Media type sniffer (input.ts)\<close>

definition detectMimeFromBytes :: "bytes \<Rightarrow> string option" where
  "detectMimeFromBytes bs =
     (if byte_at bs 0 = Some 0x89 \<and> byte_at bs 1 = Some 0x50 \<and> byte_at bs 2 = Some 0x4e
          \<and> byte_at bs 3 = Some 0x47 then Some ''image/png''
      else if byte_at bs 0 = Some 0xff \<and> byte_at bs 1 = Some 0xd8 \<and> byte_at bs 2 = Some 0xff
        then Some ''image/jpeg''
      else if byte_at bs 0 = Some 0x47 \<and> byte_at bs 1 = Some 0x49 \<and> byte_at bs 2 = Some 0x46
          \<and> byte_at bs 3 = Some 0x38 then Some ''image/gif''
      else if byte_at bs 0 = Some 0x52 \<and> byte_at bs 1 = Some 0x49 \<and> byte_at bs 2 = Some 0x46
          \<and> byte_at bs 3 = Some 0x46 \<and> byte_at bs 8 = Some 0x57 \<and> byte_at bs 9 = Some 0x45
          \<and> byte_at bs 10 = Some 0x42 \<and> byte_at bs 11 = Some 0x50 then Some ''image/webp''
      else if byte_at bs 0 = Some 0x42 \<and> byte_at bs 1 = Some 0x4d then Some ''image/bmp''
      else None)"

section \<open>Source loader (input.ts)\<close>

definition MIME_EXTENSIONS :: "(string \<times> string) list" where
  "MIME_EXTENSIONS =
     [(''.jpg'', ''image/jpeg''), (''.jpeg'', ''image/jpeg''), (''.png'', ''image/png''),
      (''.webp'', ''image/webp''), (''.gif'', ''image/gif''), (''.heic'', ''image/heic''),
      (''.heif'', ''image/heif''), (''.bmp'', ''image/bmp''), (''.tiff'', ''image/tiff''),
      (''.tif'', ''image/tiff''), (''.svg'', ''image/svg+xml'')]"

text \<open>
  \<^verbatim>\<open>s.match(/\.[^.]+$/)?.[0]\<close>: the leftmost position where a dot is followed by one or
  more characters that are not dots, up to the end of the string.
\<close>

fun match_ext :: "string \<Rightarrow> string option" where
  "match_ext [] = None"
| "match_ext (c # cs) =
     (if c = CHR ''.'' \<and> cs \<noteq> [] \<and> CHR ''.'' \<notin> set cs then Some (c # cs)
      else match_ext cs)"

definition mimeFromExtension :: "string \<Rightarrow> string" where
  "mimeFromExtension path =
     (let ext = orElse (match_ext (toLowerCase path)) []
      in orElse (map_of MIME_EXTENSIONS ext) ''image/jpeg'')"

definition toBase64 :: "bytes \<Rightarrow> string" where
  "toBase64 buffer = b64_encode buffer"

definition makePart :: "string \<Rightarrow> string \<Rightarrow> Part" where
  "makePart d m =
     \<lparr>thought = None, text' = None, executableCode = None, codeExecutionResult = None,
      inlineData = Some \<lparr>blob_mimeType = Some m, blob_data = Some d\<rparr>\<rparr>"

text \<open>
  \<^verbatim>\<open>existsSync\<close> and the read go through the resolved path, the messages and the
  extension through the path as given.
\<close>

definition loadFromFile :: "env \<Rightarrow> string \<Rightarrow> world \<Rightarrow> (failure + Part) \<times> world" where
  "loadFromFile e filePath w =
     (let resolved = resolve e filePath in
      case files w resolved of
        None \<Rightarrow>
          (Inl (Exit EXIT_INPUT_ERROR), console_error (''Error: File not found: '' @ filePath) w)
      | Some buffer \<Rightarrow>
          if length buffer = 0
          then (Inl (Exit EXIT_INPUT_ERROR),
                console_error (''Error: File is empty: '' @ filePath) w)
          else (Inr (makePart (toBase64 buffer)
                  (orElse (detectMimeFromBytes buffer) (mimeFromExtension filePath))), w))"

text \<open>\<^verbatim>\<open>response.ok\<close>: a status from 200 to 299.\<close>

definition ok :: "response \<Rightarrow> bool" where
  "ok r = (200 \<le> status r \<and> status r \<le> 299)"

definition loadFromUrl :: "env \<Rightarrow> string \<Rightarrow> world \<Rightarrow> (failure + Part) \<times> world" where
  "loadFromUrl e url w =
     (case fetch e url of
        Rejected msg \<Rightarrow>
          (Inl (Exit EXIT_INPUT_ERROR),
           console_error msg (console_error (''Error: Failed to fetch image: '' @ url) w))
      | Responded r \<Rightarrow>
          if \<not> ok r
          then (Inl (Exit EXIT_INPUT_ERROR),
                console_error (''Error: Failed to fetch image: '' @ url @ '' ('' @
                  decimal (status r) @ '')'') w)
          else if length (body r) = 0
          then (Inl (Exit EXIT_INPUT_ERROR),
                console_error (''Error: Fetched image is empty: '' @ url) w)
          else
            (let contentType =
                   orElse (Option.bind (content_type r) (\<lambda>h. item (split CHR '';'' h) 0)) [];
                 mimeType = orElse (detectMimeFromBytes (body r))
                   (if startsWith contentType ''image/'' then contentType else ''image/jpeg'')
             in (Inr (makePart (toBase64 (body r)) mimeType), w)))"

definition loadFromStdin :: "world \<Rightarrow> (failure + Part) \<times> world" where
  "loadFromStdin w =
     (let buffer = stdin w in
      if length buffer = 0
      then (Inl (Exit EXIT_INPUT_ERROR), console_error ''Error: No data received from stdin'' w)
      else (Inr (makePart (toBase64 buffer) (orElse (detectMimeFromBytes buffer) ''image/png'')),
            w))"

text \<open>
  The clipboard source. The helper runs first; a non-zero exit code ends the run. The
  call of \<open>loadFromFile\<close> ends the run itself when it fails, so the lines after it are
  reached only with a part in hand.
\<close>

definition unlink_if_exists :: "string \<Rightarrow> world \<Rightarrow> world" where
  "unlink_if_exists path w =
     (if path \<in> dom (files w) then w\<lparr>files := (files w)(path := None)\<rparr> else w)"

definition loadFromClipboard :: "env \<Rightarrow> world \<Rightarrow> (failure + Part) \<times> world" where
  "loadFromClipboard e w =
     (case Date_now e w of (t, w1) \<Rightarrow>
      let tmpPath = ''/tmp/imgx-clipboard-'' @ number_text t @ ''.png'' in
      case osascript e tmpPath (files w1) of (exitCode, err, files') \<Rightarrow>
      let w2 = w1\<lparr>files := files'\<rparr> in
      if exitCode \<noteq> 0
      then (Inl (Exit EXIT_INPUT_ERROR),
            (if trim err \<noteq> [] then console_error (trim err) else id)
              (console_error ''Error: No image data in clipboard'' w2))
      else
        (case loadFromFile e tmpPath w2 of
           (Inl f, w3) \<Rightarrow> (Inl f, w3)
         | (Inr part, w3) \<Rightarrow> (Inr part, unlink_if_exists tmpPath w3)))"

definition loadImagePart :: "env \<Rightarrow> string \<Rightarrow> world \<Rightarrow> (failure + Part) \<times> world" where
  "loadImagePart e source w =
     (if source = ''-'' then loadFromStdin w
      else if source = ''clipboard'' then loadFromClipboard e w
      else if startsWith source ''http://'' \<or> startsWith source ''https://''
        then loadFromUrl e source w
      else loadFromFile e source w)"

section \<open>Response classifier, image persister and renderer (output.ts)\<close>

text \<open>
  The body of the loop of \<open>parseResponse\<close>: the branch taken for one element appends
  at most one fragment to \<open>parts\<close>. \<^verbatim>\<open>a?.b\<close> is \<open>Option.bind\<close>.
\<close>

definition parse_step :: "ParsedPart list \<Rightarrow> Part \<Rightarrow> ParsedPart list" where
  "parse_step ps part =
     (if truthy_bool (thought part) \<and> truthy (text' part)
      then ps @ [\<lparr>type' = Thought, content = orElse (text' part) [], mimeType = None, data = None\<rparr>]
      else if truthy (text' part)
      then ps @ [\<lparr>type' = Text, content = orElse (text' part) [], mimeType = None, data = None\<rparr>]
      else if truthy (Option.bind (executableCode part) exec_code)
      then ps @ [\<lparr>type' = Code, content = orElse (Option.bind (executableCode part) exec_code) [],
                  mimeType = None, data = None\<rparr>]
      else if codeExecutionResult part \<noteq> None
      then ps @ [\<lparr>type' = Result,
                  content = orElse (Option.bind (codeExecutionResult part) output') [],
                  mimeType = None, data = None\<rparr>]
      else if truthy (Option.bind (inlineData part) blob_data)
      then ps @ [\<lparr>type' = Image, content = [],
                  mimeType = Option.bind (inlineData part) blob_mimeType,
                  data = Option.bind (inlineData part) blob_data\<rparr>]
      else ps)"

definition parseResponse :: "GenerateContentResponse \<Rightarrow> ParsedPart list" where
  "parseResponse resp =
     (case candidates resp of
        None \<Rightarrow> []
      | Some [] \<Rightarrow> []
      | Some (c # _) \<Rightarrow>
          foldl parse_step [] (orElse (Option.bind (cand_content c) parts) []))"

text \<open>
  The extension of an image:
  \<^verbatim>\<open>img.mimeType?.split("/")[1]?.replace("jpeg", "jpg") ?? "png"\<close>.
\<close>

definition image_ext :: "ParsedPart \<Rightarrow> string" where
  "image_ext img =
     orElse (map_option (replace ''jpeg'' ''jpg'')
       (Option.bind (mimeType img) (\<lambda>m. item (split CHR ''/'' m) 1))) ''png''"

text \<open>
  The loop of \<open>saveImages\<close> over the image parts, \<open>paths\<close> being the paths written so
  far. \<^verbatim>\<open>Buffer.from(undefined, "base64")\<close> throws a \<^verbatim>\<open>TypeError\<close>, after the clock has
  been read.
\<close>

fun save_loop ::
    "env \<Rightarrow> string \<Rightarrow> ParsedPart list \<Rightarrow> string list \<Rightarrow> world \<Rightarrow> (failure + string list) \<times> world"
  where
  "save_loop e outputDir [] paths w = (Inr paths, w)"
| "save_loop e outputDir (img # imgs) paths w =
     (let ext = image_ext img in
      case Date_now e w of (t, w1) \<Rightarrow>
      let filename = ''imgx-'' @ number_text t @ ''-'' @ decimal (length paths) @ ''.'' @ ext;
          filepath = join e outputDir filename in
      (case data img of
         None \<Rightarrow> (Inl TypeError, w1)
       | Some d \<Rightarrow>
           (let buffer = fromBase64 d;
                w2 = w1\<lparr>files := (files w1)(filepath \<mapsto> buffer)\<rparr>;
                w3 = console_error (''Saved: '' @ filepath) w2
            in save_loop e outputDir imgs (paths @ [filepath]) w3)))"

definition saveImages ::
    "env \<Rightarrow> ParsedPart list \<Rightarrow> string \<Rightarrow> world \<Rightarrow> (failure + string list) \<times> world"
  where
  "saveImages e ps outputDir w =
     (let imageParts = filter (\<lambda>p. type' p = Image) ps in
      if imageParts = [] then (Inr [], w)
      else
        (let w1 = (if outputDir \<notin> dirs w then w\<lparr>dirs := insert outputDir (dirs w)\<rparr> else w)
         in save_loop e outputDir imageParts [] w1))"

text \<open>What the verbose mode prints for one fragment.\<close>

definition verbose_line :: "ParsedPart \<Rightarrow> string" where
  "verbose_line p =
     (case type' p of
        Thought \<Rightarrow> ''\<newline>--- Thinking ---\<newline>'' @ content p
      | Text \<Rightarrow> content p
      | Code \<Rightarrow> ''\<newline>```python\<newline>'' @ content p @ ''\<newline>```''
      | Result \<Rightarrow> ''\<newline>--- Execution Result ---\<newline>'' @ content p
      | Image \<Rightarrow> ''[Generated image saved]'')"

definition formatOutput :: "env \<Rightarrow> ParsedPart list \<Rightarrow> ImgxOptions \<Rightarrow> world \<Rightarrow> world" where
  "formatOutput e ps opts w =
     (if json opts then console_log (stringify e ps) w
      else if quiet opts then w
      else if code opts
        then foldl (\<lambda>w p. if type' p = Code then console_log (content p) w else w) w ps
      else if verbose opts
        then foldl (\<lambda>w p. console_log (verbose_line p) w) w ps
      else foldl (\<lambda>w p. if type' p = Text then console_log (content p) w else w) w ps)"

section \<open>Fixtures of the test suites\<close>

text \<open>The minimal PNG (one pixel) of input.test.ts and output.test.ts, and its base64 text.\<close>

definition minimal_png :: bytes where
  "minimal_png =
     [0x89, 0x50, 0x4e, 0x47, 0x0d, 0x0a, 0x1a, 0x0a, 0x00, 0x00, 0x00, 0x0d, 0x49, 0x48,
      0x44, 0x52, 0x00, 0x00, 0x00, 0x01, 0x00, 0x00, 0x00, 0x01, 0x08, 0x06, 0x00, 0x00,
      0x00, 0x1f, 0x15, 0xc4, 0x89, 0x00, 0x00, 0x00, 0x0d, 0x49, 0x44, 0x41, 0x54, 0x78,
      0xda, 0x63, 0xfc, 0xff, 0x9f, 0xa1, 0x1e, 0x00, 0x07, 0x82, 0x02, 0x7f, 0x3d, 0xc8,
      0x48, 0xef, 0x00, 0x00, 0x00, 0x00, 0x49, 0x45, 0x4e, 0x44, 0xae, 0x42, 0x60, 0x82]"

definition minimal_png_base64 :: string where
  "minimal_png_base64 =
     ''iVBORw0KGgoAAAANSUhEUgAAAAEAAAABCAYAAAAfFcSJAAAADUlEQVR42mP8/5+hHgAHggJ/PchI7wAAAABJRU5ErkJggg==''"

text \<open>
  A platform for the examples: absolute paths resolve to themselves, \<open>join\<close> puts a
  slash between directory and name, the clock advances by one millisecond per reading,
  the network is down and the clipboard holds no image (the helper creates the
  temporary file, fails and leaves it empty).
\<close>

definition join_slash :: "string \<Rightarrow> string \<Rightarrow> string" where
  "join_slash d f = d @ ''/'' @ f"

definition ticking_clock :: "nat \<Rightarrow> int" where
  "ticking_clock k = 1700000000000 + int k"

definition no_network :: "string \<Rightarrow> fetched" where
  "no_network url = Rejected ''network unreachable''"

definition clipboard_without_image ::
    "string \<Rightarrow> (string \<rightharpoonup> bytes) \<Rightarrow> int \<times> string \<times> (string \<rightharpoonup> bytes)" where
  "clipboard_without_image tmpPath fs = (1, ''No image data in clipboard'', fs(tmpPath \<mapsto> []))"

definition no_json :: "ParsedPart list \<Rightarrow> string" where
  "no_json ps = ''[]''"

definition test_env :: env where
  "test_env =
     \<lparr>resolve = id, join = join_slash, now = ticking_clock, fetch = no_network,
      osascript = clipboard_without_image, stringify = no_json\<rparr>"

definition empty_world :: world where
  "empty_world = \<lparr>files = Map.empty, dirs = {}, stdin = [], stdout = [], stderr = [], ticks = 0\<rparr>"

text \<open>A world whose working directory holds a PNG file with the name \<^verbatim>\<open>clipboard\<close>.\<close>

definition world_with_clipboard_file :: world where
  "world_with_clipboard_file = empty_world\<lparr>files := [''clipboard'' \<mapsto> minimal_png]\<rparr>"

text \<open>The parts of the test "saves multiple images"; the data is the base64 text of
  \<^verbatim>\<open>fake-image\<close>.\<close>

definition multiple_images :: "ParsedPart list" where
  "multiple_images =
     [\<lparr>type' = Image, content = [], mimeType = Some ''image/png'', data = Some ''ZmFrZS1pbWFnZQ==''\<rparr>,
      \<lparr>type' = Text, content = ''some text'', mimeType = None, data = None\<rparr>,
      \<lparr>type' = Image, content = [], mimeType = Some ''image/jpeg'', data = Some ''ZmFrZS1pbWFnZQ==''\<rparr>]"

text \<open>An image fragment with a given media type.\<close>

definition image_of_type :: "string option \<Rightarrow> ParsedPart" where
  "image_of_type m = \<lparr>type' = Image, content = [], mimeType = m, data = Some ''AAAA''\<rparr>"

text \<open>
  Two more clipboards: one whose helper succeeds and writes the minimal PNG to the
  temporary file, and one whose helper succeeds but writes no bytes.
\<close>

definition clipboard_with_png ::
    "string \<Rightarrow> (string \<rightharpoonup> bytes) \<Rightarrow> int \<times> string \<times> (string \<rightharpoonup> bytes)" where
  "clipboard_with_png tmpPath fs = (0, [], fs(tmpPath \<mapsto> minimal_png))"

definition clipboard_with_no_bytes ::
    "string \<Rightarrow> (string \<rightharpoonup> bytes) \<Rightarrow> int \<times> string \<times> (string \<rightharpoonup> bytes)" where
  "clipboard_with_no_bytes tmpPath fs = (0, [], fs(tmpPath \<mapsto> []))"

section \<open>The classifier's rules as the specification words them\<close>

text \<open>
  The five fragment variants of the specification's data model, as values of
  \<open>ParsedPart\<close>.
\<close>

definition Narration :: "string \<Rightarrow> ParsedPart" where
  "Narration c = \<lparr>type' = Text, content = c, mimeType = None, data = None\<rparr>"

definition Reasoning :: "string \<Rightarrow> ParsedPart" where
  "Reasoning c = \<lparr>type' = Thought, content = c, mimeType = None, data = None\<rparr>"

definition CodeFragment :: "string \<Rightarrow> ParsedPart" where
  "CodeFragment c = \<lparr>type' = Code, content = c, mimeType = None, data = None\<rparr>"

definition ExecutionResult :: "string \<Rightarrow> ParsedPart" where
  "ExecutionResult c = \<lparr>type' = Result, content = c, mimeType = None, data = None\<rparr>"

definition ImageFragment :: "string option \<Rightarrow> string \<Rightarrow> ParsedPart" where
  "ImageFragment m d = \<lparr>type' = Image, content = [], mimeType = m, data = Some d\<rparr>"

text \<open>
  The rules of section 4.3 with the test the classifier applies to every payload: the
  first rule that matches an element decides its fragment, an element that matches none
  gives no fragment, and text, code and inline data match only when the field is there
  and is not the empty string.
\<close>

definition nonempty :: "string option \<Rightarrow> string option" where
  "nonempty v = (case v of Some (c # cs) \<Rightarrow> Some (c # cs) | _ \<Rightarrow> None)"

definition carried_text :: "Part \<Rightarrow> string option" where
  "carried_text el = nonempty (text' el)"

definition carried_code :: "Part \<Rightarrow> string option" where
  "carried_code el = (case executableCode el of None \<Rightarrow> None | Some x \<Rightarrow> nonempty (exec_code x))"

definition carried_image :: "Part \<Rightarrow> (string option \<times> string) option" where
  "carried_image el =
     (case inlineData el of
        None \<Rightarrow> None
      | Some b \<Rightarrow> map_option (\<lambda>d. (blob_mimeType b, d)) (nonempty (blob_data b)))"

definition fragment_of :: "Part \<Rightarrow> ParsedPart option" where
  "fragment_of el =
     (case carried_text el of
        Some t \<Rightarrow> Some (if thought el = Some True then Reasoning t else Narration t)
      | None \<Rightarrow>
     (case carried_code el of
        Some c \<Rightarrow> Some (CodeFragment c)
      | None \<Rightarrow>
     (case codeExecutionResult el of
        Some r \<Rightarrow> Some (ExecutionResult (case output' r of None \<Rightarrow> [] | Some out \<Rightarrow> out))
      | None \<Rightarrow>
     (case carried_image el of
        Some (m, d) \<Rightarrow> Some (ImageFragment m d)
      | None \<Rightarrow> None))))"

text \<open>
  The rules as section 4.3 words them: non-emptiness is asked of executable code only,
  an element that carries a text field is reasoning or narration whatever the text is,
  and an element that carries inline data is an image.
\<close>

definition worded_fragment_of :: "Part \<Rightarrow> ParsedPart option" where
  "worded_fragment_of el =
     (case text' el of
        Some t \<Rightarrow> Some (if thought el = Some True then Reasoning t else Narration t)
      | None \<Rightarrow>
     (case carried_code el of
        Some c \<Rightarrow> Some (CodeFragment c)
      | None \<Rightarrow>
     (case codeExecutionResult el of
        Some r \<Rightarrow> Some (ExecutionResult (case output' r of None \<Rightarrow> [] | Some out \<Rightarrow> out))
      | None \<Rightarrow>
     (case inlineData el of
        Some b \<Rightarrow>
          Some \<lparr>type' = Image, content = [], mimeType = blob_mimeType b, data = blob_data b\<rparr>
      | None \<Rightarrow> None))))"

text \<open>\<^verbatim>\<open>mockResponse\<close> of output.test.ts: one candidate with the given elements.\<close>

definition mockResponse :: "Part list \<Rightarrow> GenerateContentResponse" where
  "mockResponse els = \<lparr>candidates = Some [\<lparr>cand_content = Some \<lparr>parts = Some els\<rparr>\<rparr>]\<rparr>"

text \<open>The response of the test "parses a full multi-part response in order", with the
  execution result reporting no output.\<close>

definition element :: Part where
  "element = \<lparr>thought = None, text' = None, executableCode = None,
     codeExecutionResult = None, inlineData = None\<rparr>"

text \<open>
  Elements with an empty payload: an empty text, an empty text beside executable code,
  and inline data of no bytes.
\<close>

definition empty_text :: Part where
  "empty_text = element\<lparr>text' := Some []\<rparr>"

definition empty_text_with_code :: Part where
  "empty_text_with_code =
     element\<lparr>text' := Some [], executableCode := Some \<lparr>exec_code = Some ''x=1'', language = None\<rparr>\<rparr>"

definition empty_inline_data :: Part where
  "empty_inline_data =
     element\<lparr>inlineData := Some \<lparr>blob_mimeType = Some ''image/png'', blob_data = Some []\<rparr>\<rparr>"

definition full_response :: GenerateContentResponse where
  "full_response = \<lparr>candidates = Some [\<lparr>cand_content = Some \<lparr>parts = Some
     [element\<lparr>thought := Some True, text' := Some ''I should analyze this''\<rparr>,
      element\<lparr>text' := Some ''Here's my analysis:''\<rparr>,
      element\<lparr>executableCode := Some \<lparr>exec_code = Some ''import cv2'', language = Some ''PYTHON''\<rparr>\<rparr>,
      element\<lparr>codeExecutionResult := Some \<lparr>outcome = Some ''OUTCOME_OK'', output' = None\<rparr>\<rparr>,
      element\<lparr>inlineData := Some \<lparr>blob_mimeType = Some ''image/png'', blob_data = Some ''AAAA''\<rparr>\<rparr>,
      element\<lparr>text' := Some ''The annotated image is above.''\<rparr>]\<rparr>\<rparr>]\<rparr>"

section \<open>The renderer's modes as the specification words them\<close>

text \<open>
  Section 4.5 of the specification: one of five modes is selected from the options, and
  each mode decides what is written to the primary output, one entry per write.
\<close>

datatype mode = JSON_mode | Quiet_mode | Code_only_mode | Verbose_mode | Default_mode

definition selected_mode :: "ImgxOptions \<Rightarrow> mode" where
  "selected_mode opts =
     (if json opts then JSON_mode
      else if quiet opts then Quiet_mode
      else if code opts then Code_only_mode
      else if verbose opts then Verbose_mode
      else Default_mode)"

fun emitted :: "env \<Rightarrow> mode \<Rightarrow> ParsedPart list \<Rightarrow> string list" where
  "emitted e JSON_mode ps = [stringify e ps]"
| "emitted e Quiet_mode ps = []"
| "emitted e Code_only_mode ps = map content (filter (\<lambda>p. type' p = Code) ps)"
| "emitted e Verbose_mode ps = map verbose_line ps"
| "emitted e Default_mode ps = map content (filter (\<lambda>p. type' p = Text) ps)"

text \<open>\<^verbatim>\<open>defaultOpts\<close> and \<^verbatim>\<open>mixedParts\<close> of output.test.ts.\<close>

definition defaultOpts :: ImgxOptions where
  "defaultOpts =
     \<lparr>verbose = False, code = False, images = ''.'', json = False, quiet = False,
      model = ''gemini-3-flash-preview'', system = None, timeout = None\<rparr>"

definition mixedParts :: "ParsedPart list" where
  "mixedParts =
     [\<lparr>type' = Thought, content = ''thinking...'', mimeType = None, data = None\<rparr>,
      \<lparr>type' = Text, content = ''The answer is 42.'', mimeType = None, data = None\<rparr>,
      \<lparr>type' = Code, content = ''print(42)'', mimeType = None, data = None\<rparr>,
      \<lparr>type' = Result, content = ''42\<newline>'', mimeType = None, data = None\<rparr>,
      \<lparr>type' = Image, content = [], mimeType = Some ''image/png'', data = Some ''AAA''\<rparr>]"

section \<open>The extension table as the specification words it\<close>

text \<open>
  Section 4.2 of the specification: the media type of a lower-case extension (without its
  dot), \<^verbatim>\<open>image/jpeg\<close> being the terminal default.
\<close>

definition extension_mime :: "string \<Rightarrow> string" where
  "extension_mime x =
     (if x = ''jpg'' \<or> x = ''jpeg'' then ''image/jpeg''
      else if x = ''png'' then ''image/png''
      else if x = ''webp'' then ''image/webp''
      else if x = ''gif'' then ''image/gif''
      else if x = ''heic'' then ''image/heic''
      else if x = ''heif'' then ''image/heif''
      else if x = ''bmp'' then ''image/bmp''
      else if x = ''tiff'' \<or> x = ''tif'' then ''image/tiff''
      else if x = ''svg'' then ''image/svg+xml''
      else ''image/jpeg'')"

text \<open>The files of the tests "loads a JPEG file (detected by magic bytes)" and "falls back
  to extension when magic bytes don't match".\<close>

definition jpeg_header_bytes :: bytes where
  "jpeg_header_bytes = [0xff, 0xd8, 0xff, 0xe0] @ replicate 28 0"

definition not_a_webp :: bytes where
  "not_a_webp = map of_char ''not-a-real-webp-but-has-data''"

definition world_with_test_files :: world where
  "world_with_test_files =
     empty_world\<lparr>files := [''/tmp/t/test.dat'' \<mapsto> jpeg_header_bytes,
       ''/tmp/t/test.webp'' \<mapsto> not_a_webp]\<rparr>"

section \<open>The sniffer's signatures\<close>

lemma byte_at_drop: "byte_at (drop k bs) i = byte_at bs (k + i)"
  by (auto simp: byte_at_def)

lemma byte_at_tl: "byte_at (tl bs) i = byte_at bs (Suc i)"
  by (cases bs) (auto simp: byte_at_def)

lemma take_Suc_eq_Cons:
  "take (Suc n) bs = x # xs \<longleftrightarrow> byte_at bs 0 = Some x \<and> take n (tl bs) = xs"
  by (cases bs) (auto simp: byte_at_def)

lemma take2_byte_at:
  "take 2 bs = [a, b] \<longleftrightarrow> byte_at bs 0 = Some a \<and> byte_at bs 1 = Some b"
proof -
  have n: "(2::nat) = Suc (Suc 0)" "(1::nat) = Suc 0" by simp_all
  show ?thesis unfolding n by (simp only: take_Suc_eq_Cons byte_at_tl take_0 simp_thms)
qed

lemma take3_byte_at:
  "take 3 bs = [a, b, c] \<longleftrightarrow>
     byte_at bs 0 = Some a \<and> byte_at bs 1 = Some b \<and> byte_at bs 2 = Some c"
proof -
  have n: "(3::nat) = Suc (Suc (Suc 0))" "(2::nat) = Suc (Suc 0)" "(1::nat) = Suc 0"
    by simp_all
  show ?thesis unfolding n by (simp only: take_Suc_eq_Cons byte_at_tl take_0 simp_thms)
qed

lemma take4_byte_at:
  "take 4 bs = [a, b, c, d] \<longleftrightarrow>
     byte_at bs 0 = Some a \<and> byte_at bs 1 = Some b \<and> byte_at bs 2 = Some c \<and>
     byte_at bs 3 = Some d"
proof -
  have n: "(4::nat) = Suc (Suc (Suc (Suc 0)))" "(3::nat) = Suc (Suc (Suc 0))"
    "(2::nat) = Suc (Suc 0)" "(1::nat) = Suc 0" by simp_all
  show ?thesis unfolding n by (simp only: take_Suc_eq_Cons byte_at_tl take_0 simp_thms)
qed

lemma take4_drop8_byte_at:
  "take 4 (drop 8 bs) = [a, b, c, d] \<longleftrightarrow>
     byte_at bs 8 = Some a \<and> byte_at bs 9 = Some b \<and> byte_at bs 10 = Some c \<and>
     byte_at bs 11 = Some d"
  by (simp add: take4_byte_at byte_at_drop)

text \<open>The sniffer in terms of the leading bytes instead of indexed reads.\<close>

lemma detectMimeFromBytes_take:
  "detectMimeFromBytes bs =
     (if take 4 bs = [0x89, 0x50, 0x4e, 0x47] then Some ''image/png''
      else if take 3 bs = [0xff, 0xd8, 0xff] then Some ''image/jpeg''
      else if take 4 bs = [0x47, 0x49, 0x46, 0x38] then Some ''image/gif''
      else if take 4 bs = [0x52, 0x49, 0x46, 0x46] \<and> take 4 (drop 8 bs) = [0x57, 0x45, 0x42, 0x50]
        then Some ''image/webp''
      else if take 2 bs = [0x42, 0x4d] then Some ''image/bmp''
      else None)"
proof -
  have "(if take 4 bs = [0x89, 0x50, 0x4e, 0x47] then Some ''image/png''
      else if take 3 bs = [0xff, 0xd8, 0xff] then Some ''image/jpeg''
      else if take 4 bs = [0x47, 0x49, 0x46, 0x38] then Some ''image/gif''
      else if take 4 bs = [0x52, 0x49, 0x46, 0x46] \<and> take 4 (drop 8 bs) = [0x57, 0x45, 0x42, 0x50]
        then Some ''image/webp''
      else if take 2 bs = [0x42, 0x4d] then Some ''image/bmp''
      else None) =
     (if take 4 bs = [0x89, 0x50, 0x4e, 0x47] then Some ''image/png''
      else if take 3 bs = [0xff, 0xd8, 0xff] then Some ''image/jpeg''
      else if take 4 bs = [0x47, 0x49, 0x46, 0x38] then Some ''image/gif''
      else if take 4 bs = [0x52, 0x49, 0x46, 0x46] \<and> byte_at bs 8 = Some 0x57
          \<and> byte_at bs 9 = Some 0x45 \<and> byte_at bs 10 = Some 0x42 \<and> byte_at bs 11 = Some 0x50
        then Some ''image/webp''
      else if take 2 bs = [0x42, 0x4d] then Some ''image/bmp''
      else None)"
    by (simp only: take4_drop8_byte_at)
  also have "\<dots> = detectMimeFromBytes bs"
    by (simp only: detectMimeFromBytes_def take2_byte_at take3_byte_at take4_byte_at conj_assoc)
  finally show ?thesis by simp
qed

text \<open>
  C6: the sniffer answers PNG for the leading bytes 89 50 4E 47, JPEG for FF D8 FF, GIF
  for \<^verbatim>\<open>GIF8\<close>, WEBP for \<^verbatim>\<open>RIFF\<close> at offset 0 together with \<^verbatim>\<open>WEBP\<close> at offset 8, BMP
  for \<^verbatim>\<open>BM\<close>, and Unknown (\<open>None\<close>) for every other buffer, in particular for the empty
  buffer and for every buffer of fewer than two bytes. The function is total: a read
  beyond the end of the buffer compares unequal and raises nothing.
\<close>

theorem detectMimeFromBytes_signatures:
  "(take 4 bs = [0x89, 0x50, 0x4e, 0x47] \<longrightarrow> detectMimeFromBytes bs = Some ''image/png'') \<and>
   (take 3 bs = [0xff, 0xd8, 0xff] \<longrightarrow> detectMimeFromBytes bs = Some ''image/jpeg'') \<and>
   (take 4 bs = [0x47, 0x49, 0x46, 0x38] \<longrightarrow> detectMimeFromBytes bs = Some ''image/gif'') \<and>
   (take 4 bs = [0x52, 0x49, 0x46, 0x46] \<and> take 4 (drop 8 bs) = [0x57, 0x45, 0x42, 0x50]
      \<longrightarrow> detectMimeFromBytes bs = Some ''image/webp'') \<and>
   (take 2 bs = [0x42, 0x4d] \<longrightarrow> detectMimeFromBytes bs = Some ''image/bmp'') \<and>
   (take 4 bs \<noteq> [0x89, 0x50, 0x4e, 0x47] \<and> take 3 bs \<noteq> [0xff, 0xd8, 0xff] \<and>
    take 4 bs \<noteq> [0x47, 0x49, 0x46, 0x38] \<and>
    \<not> (take 4 bs = [0x52, 0x49, 0x46, 0x46] \<and> take 4 (drop 8 bs) = [0x57, 0x45, 0x42, 0x50]) \<and>
    take 2 bs \<noteq> [0x42, 0x4d] \<longrightarrow> detectMimeFromBytes bs = None) \<and>
   (length bs < 2 \<longrightarrow> detectMimeFromBytes bs = None)"
proof -
  have png: "take 4 bs = [0x89, 0x50, 0x4e, 0x47] \<Longrightarrow> detectMimeFromBytes bs = Some ''image/png''"
    by (simp add: detectMimeFromBytes_take)
  have jpeg: "take 3 bs = [0xff, 0xd8, 0xff] \<Longrightarrow> detectMimeFromBytes bs = Some ''image/jpeg''"
    by (cases bs) (auto simp: detectMimeFromBytes_take)
  have gif: "take 4 bs = [0x47, 0x49, 0x46, 0x38] \<Longrightarrow> detectMimeFromBytes bs = Some ''image/gif''"
    by (cases bs) (auto simp: detectMimeFromBytes_take)
  have webp: "take 4 bs = [0x52, 0x49, 0x46, 0x46] \<Longrightarrow> take 4 (drop 8 bs) = [0x57, 0x45, 0x42, 0x50]
      \<Longrightarrow> detectMimeFromBytes bs = Some ''image/webp''"
    by (cases bs) (auto simp: detectMimeFromBytes_take)
  have bmp: "take 2 bs = [0x42, 0x4d] \<Longrightarrow> detectMimeFromBytes bs = Some ''image/bmp''"
    by (cases bs) (auto simp: detectMimeFromBytes_take)
  have none: "take 4 bs \<noteq> [0x89, 0x50, 0x4e, 0x47] \<Longrightarrow> take 3 bs \<noteq> [0xff, 0xd8, 0xff] \<Longrightarrow>
    take 4 bs \<noteq> [0x47, 0x49, 0x46, 0x38] \<Longrightarrow>
    \<not> (take 4 bs = [0x52, 0x49, 0x46, 0x46] \<and> take 4 (drop 8 bs) = [0x57, 0x45, 0x42, 0x50]) \<Longrightarrow>
    take 2 bs \<noteq> [0x42, 0x4d] \<Longrightarrow> detectMimeFromBytes bs = None"
    by (simp add: detectMimeFromBytes_take)
  have short: "length bs < 2 \<Longrightarrow> detectMimeFromBytes bs = None"
    by (simp add: detectMimeFromBytes_def byte_at_def)
  from png jpeg gif webp bmp none short show ?thesis by blast
qed

theorem detectMimeFromBytes_signatures_witness:
  "detectMimeFromBytes [0x89, 0x50, 0x4e, 0x47, 0x0d, 0x0a, 0x1a, 0x0a] = Some ''image/png'' \<and>
   detectMimeFromBytes [0xff, 0xd8, 0xff, 0xe0] = Some ''image/jpeg'' \<and>
   detectMimeFromBytes [0x47, 0x49, 0x46, 0x38, 0x39, 0x61] = Some ''image/gif'' \<and>
   detectMimeFromBytes [0x52, 0x49, 0x46, 0x46, 0, 0, 0, 0, 0x57, 0x45, 0x42, 0x50]
     = Some ''image/webp'' \<and>
   detectMimeFromBytes [0x42, 0x4d, 0, 0] = Some ''image/bmp'' \<and>
   detectMimeFromBytes [0x00, 0x01, 0x02, 0x03] = None \<and>
   detectMimeFromBytes [0x89, 0x50, 0x4e] = None \<and>
   detectMimeFromBytes [] = None"
  using detectMimeFromBytes_signatures [of "[0x89, 0x50, 0x4e, 0x47, 0x0d, 0x0a, 0x1a, 0x0a]"]
    detectMimeFromBytes_signatures [of "[0xff, 0xd8, 0xff, 0xe0]"]
    detectMimeFromBytes_signatures [of "[0x47, 0x49, 0x46, 0x38, 0x39, 0x61]"]
    detectMimeFromBytes_signatures [of "[0x52, 0x49, 0x46, 0x46, 0, 0, 0, 0, 0x57, 0x45, 0x42, 0x50]"]
    detectMimeFromBytes_signatures [of "[0x42, 0x4d, 0, 0]"]
    detectMimeFromBytes_signatures [of "[0x00, 0x01, 0x02, 0x03]"]
    detectMimeFromBytes_signatures [of "[0x89, 0x50, 0x4e]"]
    detectMimeFromBytes_signatures [of "[]"]
  by simp

section \<open>Base64 round trip\<close>























section \<open>The classifier is a first-match projection of the first candidate\<close>

lemma nonempty_truthy: "nonempty v = (if truthy v then v else None)"
  by (auto simp: nonempty_def truthy_def split: option.splits list.splits)

lemma parse_step_fragment_of:
  "parse_step ps el = ps @ (case fragment_of el of None \<Rightarrow> [] | Some f \<Rightarrow> [f])"
  by (cases "thought el"; cases "text' el"; cases "executableCode el";
      cases "codeExecutionResult el"; cases "inlineData el")
     (auto simp: parse_step_def fragment_of_def carried_text_def carried_code_def
      carried_image_def nonempty_truthy truthy_def truthy_bool_def orElse_def Reasoning_def
      Narration_def CodeFragment_def ExecutionResult_def ImageFragment_def
      split: option.splits)

lemma foldl_parse_step: "foldl parse_step acc els = acc @ List.map_filter fragment_of els"
  by (induction els arbitrary: acc) (simp_all add: parse_step_fragment_of split: option.splits)

text \<open>
  C4 (as amended): \<open>parseResponse\<close> looks at the first candidate only and maps every
  element of its content list to at most one fragment, by the first rule that matches,
  in the order reasoning with non-empty text, non-empty text, executable code with
  non-empty code, code-execution result (its output, or the empty string), inline data
  with non-empty data; an element that matches no rule, in particular one whose text or
  inline data is empty and that carries nothing else, gives no fragment, and the
  fragments keep the order of the elements.
\<close>

theorem parseResponse_first_match:
  "parseResponse resp =
     (case candidates resp of
        None \<Rightarrow> []
      | Some [] \<Rightarrow> []
      | Some (first # others) \<Rightarrow>
          (case cand_content first of
             None \<Rightarrow> []
           | Some c \<Rightarrow>
               (case parts c of None \<Rightarrow> [] | Some els \<Rightarrow> List.map_filter fragment_of els)))"
  by (simp add: parseResponse_def foldl_parse_step orElse_def split: option.splits list.splits)

theorem parseResponse_first_match_witness:
  "parseResponse full_response =
     [Reasoning ''I should analyze this'', Narration ''Here's my analysis:'',
      CodeFragment ''import cv2'', ExecutionResult [], ImageFragment (Some ''image/png'') ''AAAA'',
      Narration ''The annotated image is above.''] \<and>
   length (parseResponse full_response) = 6"
  using parseResponse_first_match [of full_response]
  by (simp add: full_response_def element_def fragment_of_def carried_text_def
      carried_code_def carried_image_def nonempty_def)

text \<open>
  The rules as section 4.3 words them fail on empty payloads: an element with an empty
  text is narration by the wording and gives no fragment in the code, beside executable
  code the wording still gives narration and the code gives the code fragment, and
  inline data of no bytes is an image by the wording and nothing in the code.
\<close>

theorem parseResponse_empty_payload_counterexample:
  "parseResponse (mockResponse [empty_text]) = [] \<and>
   List.map_filter worded_fragment_of [empty_text] = [Narration []] \<and>
   parseResponse (mockResponse [empty_text]) \<noteq> List.map_filter worded_fragment_of [empty_text] \<and>
   parseResponse (mockResponse [empty_text_with_code]) = [CodeFragment ''x=1''] \<and>
   List.map_filter worded_fragment_of [empty_text_with_code] = [Narration []] \<and>
   parseResponse (mockResponse [empty_inline_data]) = [] \<and>
   List.map_filter worded_fragment_of [empty_inline_data] =
     [\<lparr>type' = Image, content = [], mimeType = Some ''image/png'', data = Some []\<rparr>]"
  by (simp add: parseResponse_def mockResponse_def parse_step_def empty_text_def
      empty_text_with_code_def empty_inline_data_def element_def truthy_def truthy_bool_def
      orElse_def worded_fragment_of_def carried_code_def nonempty_def Narration_def
      CodeFragment_def)

section \<open>The renderer's modes\<close>

lemma console_log_append:
  "console_log l (w\<lparr>stdout := stdout w @ ls\<rparr>) = w\<lparr>stdout := stdout w @ ls @ [l]\<rparr>"
  by (simp add: console_log_def)

lemma foldl_log_filter:
  "foldl (\<lambda>w p. if P p then console_log (f p) w else w) (w\<lparr>stdout := stdout w @ ls\<rparr>) ps
     = w\<lparr>stdout := stdout w @ ls @ map f (filter P ps)\<rparr>"
  by (induction ps arbitrary: ls) (simp_all add: console_log_append)

lemma foldl_log_all:
  "foldl (\<lambda>w p. console_log (f p) w) (w\<lparr>stdout := stdout w @ ls\<rparr>) ps
     = w\<lparr>stdout := stdout w @ ls @ map f ps\<rparr>"
  by (induction ps arbitrary: ls) (simp_all add: console_log_append)

lemma world_stdout_Nil: "w\<lparr>stdout := stdout w @ []\<rparr> = (w :: world)"
  by simp

lemma formatOutput_emitted:
  "formatOutput e ps opts w = w\<lparr>stdout := stdout w @ emitted e (selected_mode opts) ps\<rparr>"
  using foldl_log_filter [of "\<lambda>p. type' p = Code" content w "[]" ps]
    foldl_log_filter [of "\<lambda>p. type' p = Text" content w "[]" ps]
    foldl_log_all [of verbose_line w "[]" ps]
  by (simp add: formatOutput_def selected_mode_def console_log_def)

text \<open>
  C8: the options select exactly one of the five modes, JSON before quiet before
  code-only before verbose before default, and the renderer writes what that mode
  emits and nothing else; when the quiet mode is selected (quiet set, JSON not set) the
  renderer leaves the primary output, and the whole world, as it was, whatever the
  fragments are.
\<close>

theorem formatOutput_modes:
  "selected_mode opts =
     (if json opts then JSON_mode else if quiet opts then Quiet_mode
      else if code opts then Code_only_mode else if verbose opts then Verbose_mode
      else Default_mode) \<and>
   formatOutput e ps opts w = w\<lparr>stdout := stdout w @ emitted e (selected_mode opts) ps\<rparr> \<and>
   (\<not> json opts \<and> quiet opts \<longrightarrow>
      selected_mode opts = Quiet_mode \<and> formatOutput e ps opts w = w \<and>
      stdout (formatOutput e ps opts w) = stdout w)"
  by (simp add: formatOutput_emitted) (simp add: selected_mode_def)

theorem formatOutput_modes_witness:
  "formatOutput test_env mixedParts (defaultOpts\<lparr>quiet := True\<rparr>) empty_world = empty_world \<and>
   stdout (formatOutput test_env mixedParts
     (defaultOpts\<lparr>quiet := True, code := True, verbose := True\<rparr>) empty_world) = [] \<and>
   stdout (formatOutput test_env mixedParts (defaultOpts\<lparr>quiet := True, json := True\<rparr>)
     empty_world) = [''[]''] \<and>
   stdout (formatOutput test_env mixedParts (defaultOpts\<lparr>code := True, verbose := True\<rparr>)
     empty_world) = [''print(42)''] \<and>
   stdout (formatOutput test_env mixedParts defaultOpts empty_world) = [''The answer is 42.'']"
  using formatOutput_modes [of "defaultOpts\<lparr>quiet := True\<rparr>" test_env mixedParts empty_world]
    formatOutput_modes [of "defaultOpts\<lparr>quiet := True, code := True, verbose := True\<rparr>"
      test_env mixedParts empty_world]
    formatOutput_modes [of "defaultOpts\<lparr>quiet := True, json := True\<rparr>" test_env mixedParts
      empty_world]
    formatOutput_modes [of "defaultOpts\<lparr>code := True, verbose := True\<rparr>" test_env mixedParts
      empty_world]
    formatOutput_modes [of defaultOpts test_env mixedParts empty_world]
  by (simp add: defaultOpts_def mixedParts_def empty_world_def test_env_def no_json_def)

section \<open>Dispatch on the source descriptor\<close>

lemma toBase64_minimal_png: "toBase64 minimal_png = minimal_png_base64"
  unfolding toBase64_def minimal_png_def minimal_png_base64_def
  by (simp add: enc6_def b64_alphabet_def)

lemma detectMimeFromBytes_minimal_png: "detectMimeFromBytes minimal_png = Some ''image/png''"
  by (simp add: detectMimeFromBytes_def minimal_png_def byte_at_def)

text \<open>
  C7: the loader decides by the descriptor alone, in this order: \<^verbatim>\<open>-\<close> is standard
  input; \<^verbatim>\<open>clipboard\<close> is the clipboard source; a descriptor that starts with
  \<^verbatim>\<open>http://\<close> or \<^verbatim>\<open>https://\<close> is fetched; every other descriptor is a local path. The
  files of the world play no part in the choice, so a file named \<^verbatim>\<open>clipboard\<close> is
  never read as a file.
\<close>

theorem loadImagePart_dispatch:
  "loadImagePart e ''-'' w = loadFromStdin w \<and>
   loadImagePart e ''clipboard'' w = loadFromClipboard e w \<and>
   (source \<noteq> ''-'' \<and> source \<noteq> ''clipboard'' \<and>
    (prefix ''http://'' source \<or> prefix ''https://'' source)
      \<longrightarrow> loadImagePart e source w = loadFromUrl e source w) \<and>
   (source \<noteq> ''-'' \<and> source \<noteq> ''clipboard'' \<and>
    \<not> prefix ''http://'' source \<and> \<not> prefix ''https://'' source
      \<longrightarrow> loadImagePart e source w = loadFromFile e source w)"
  by (simp add: loadImagePart_def startsWith_def)

theorem loadImagePart_dispatch_witness:
  "fst (loadFromFile test_env ''clipboard'' world_with_clipboard_file)
     = Inr (makePart minimal_png_base64 ''image/png'') \<and>
   fst (loadImagePart test_env ''clipboard'' world_with_clipboard_file)
     = Inl (Exit EXIT_INPUT_ERROR) \<and>
   loadImagePart test_env ''https://example.com/chart.png'' empty_world
     = loadFromUrl test_env ''https://example.com/chart.png'' empty_world \<and>
   loadImagePart test_env ''photo.jpg'' empty_world = loadFromFile test_env ''photo.jpg'' empty_world \<and>
   loadImagePart test_env ''-'' empty_world = loadFromStdin empty_world"
proof -
  have as_file: "fst (loadFromFile test_env ''clipboard'' world_with_clipboard_file)
      = Inr (makePart minimal_png_base64 ''image/png'')"
    by (simp add: loadFromFile_def test_env_def world_with_clipboard_file_def empty_world_def
        toBase64_minimal_png detectMimeFromBytes_minimal_png orElse_def)
      (simp add: minimal_png_def)
  have clip: "fst (loadFromClipboard test_env world_with_clipboard_file) = Inl (Exit EXIT_INPUT_ERROR)"
    by (simp add: loadFromClipboard_def Date_now_def test_env_def clipboard_without_image_def
        Let_def)
  from as_file clip
    loadImagePart_dispatch [of test_env world_with_clipboard_file "''https://example.com/chart.png''"]
    loadImagePart_dispatch [of test_env empty_world "''https://example.com/chart.png''"]
    loadImagePart_dispatch [of test_env empty_world "''photo.jpg''"]
  show ?thesis by simp
qed

section \<open>Media type of a file: signature first, extension second\<close>

lemma lower_char_dot:
  "lower_char c = CHR ''.'' \<longleftrightarrow> c = CHR ''.''" "CHR ''.'' = lower_char c \<longleftrightarrow> c = CHR ''.''"
  by (auto simp: lower_char_def split: if_splits)

lemma toLowerCase_no_dot: "CHR ''.'' \<notin> set (toLowerCase s) \<longleftrightarrow> CHR ''.'' \<notin> set s"
  by (induction s) (auto simp: toLowerCase_def lower_char_dot)

lemma toLowerCase_append: "toLowerCase (s @ t) = toLowerCase s @ toLowerCase t"
  by (simp add: toLowerCase_def)

lemma toLowerCase_dot: "toLowerCase (CHR ''.'' # s) = CHR ''.'' # toLowerCase s"
  by (simp add: toLowerCase_def lower_char_def)

lemma match_ext_final:
  "CHR ''.'' \<notin> set x \<Longrightarrow> x \<noteq> [] \<Longrightarrow> match_ext (stem @ CHR ''.'' # x) = Some (CHR ''.'' # x)"
  by (induction stem) auto

lemma match_ext_no_dot: "CHR ''.'' \<notin> set p \<Longrightarrow> match_ext p = None"
  by (induction p) auto

lemma match_ext_trailing_dot: "match_ext (stem @ ''.'') = None"
  by (induction stem) auto

lemma MIME_EXTENSIONS_extension_mime:
  "orElse (map_of MIME_EXTENSIONS (CHR ''.'' # x)) ''image/jpeg'' = extension_mime x"
  by (simp add: MIME_EXTENSIONS_def extension_mime_def orElse_def)

lemma mimeFromExtension_final:
  assumes "CHR ''.'' \<notin> set x" and "x \<noteq> []"
  shows "mimeFromExtension (stem @ CHR ''.'' # x) = extension_mime (toLowerCase x)"
proof -
  from assms have "CHR ''.'' \<notin> set (toLowerCase x)" and "toLowerCase x \<noteq> []"
    by (simp_all add: toLowerCase_no_dot) (simp add: toLowerCase_def)
  then have "match_ext (toLowerCase (stem @ CHR ''.'' # x)) = Some (CHR ''.'' # toLowerCase x)"
    by (simp add: toLowerCase_append toLowerCase_dot match_ext_final del: match_ext.simps)
  then show ?thesis
    by (simp add: mimeFromExtension_def orElse_def MIME_EXTENSIONS_extension_mime [unfolded orElse_def])
qed

lemma mimeFromExtension_absent:
  assumes "CHR ''.'' \<notin> set p"
  shows "mimeFromExtension p = ''image/jpeg''"
proof -
  from assms have "match_ext (toLowerCase p) = None"
    by (simp add: match_ext_no_dot toLowerCase_no_dot)
  then show ?thesis by (simp add: mimeFromExtension_def orElse_def MIME_EXTENSIONS_def)
qed

lemma mimeFromExtension_trailing_dot: "mimeFromExtension (stem @ ''.'') = ''image/jpeg''"
proof -
  have "match_ext (toLowerCase (stem @ ''.'')) = None"
    using match_ext_trailing_dot [of "toLowerCase stem"]
    by (simp add: toLowerCase_append toLowerCase_dot) (simp add: toLowerCase_def)
  then show ?thesis by (simp add: mimeFromExtension_def orElse_def MIME_EXTENSIONS_def)
qed

text \<open>
  C5: a file that exists and is not empty is loaded with the media type the sniffer
  finds in its bytes; only when the sniffer finds none is the type taken from the path:
  the text after the final dot, in lower case, looked up in the table (jpg, jpeg, png,
  webp, gif, heic, heif, bmp, tiff, tif, svg), and \<^verbatim>\<open>image/jpeg\<close> when it is not in the
  table or when the path has no extension (no dot, or nothing after the final dot).
\<close>

theorem loadFromFile_mime:
  "(files w (resolve e path) = Some bs \<and> bs \<noteq> [] \<and> detectMimeFromBytes bs = Some m
      \<longrightarrow> loadFromFile e path w = (Inr (makePart (toBase64 bs) m), w)) \<and>
   (files w (resolve e path) = Some bs \<and> bs \<noteq> [] \<and> detectMimeFromBytes bs = None
      \<longrightarrow> loadFromFile e path w = (Inr (makePart (toBase64 bs) (mimeFromExtension path)), w)) \<and>
   (CHR ''.'' \<notin> set x \<and> x \<noteq> []
      \<longrightarrow> mimeFromExtension (stem @ ''.'' @ x) = extension_mime (toLowerCase x)) \<and>
   (CHR ''.'' \<notin> set path \<longrightarrow> mimeFromExtension path = ''image/jpeg'') \<and>
   mimeFromExtension (stem @ ''.'') = ''image/jpeg''"
proof -
  have "files w (resolve e path) = Some bs \<Longrightarrow> bs \<noteq> [] \<Longrightarrow> detectMimeFromBytes bs = Some m
      \<Longrightarrow> loadFromFile e path w = (Inr (makePart (toBase64 bs) m), w)"
    by (simp add: loadFromFile_def orElse_def)
  moreover have "files w (resolve e path) = Some bs \<Longrightarrow> bs \<noteq> [] \<Longrightarrow> detectMimeFromBytes bs = None
      \<Longrightarrow> loadFromFile e path w = (Inr (makePart (toBase64 bs) (mimeFromExtension path)), w)"
    by (simp add: loadFromFile_def orElse_def)
  moreover have "CHR ''.'' \<notin> set x \<Longrightarrow> x \<noteq> []
      \<Longrightarrow> mimeFromExtension (stem @ ''.'' @ x) = extension_mime (toLowerCase x)"
    using mimeFromExtension_final [of x stem] by simp
  ultimately show ?thesis
    using mimeFromExtension_absent [of path] mimeFromExtension_trailing_dot [of stem] by blast
qed

theorem loadFromFile_mime_witness:
  "fst (loadFromFile test_env ''/tmp/t/test.dat'' world_with_test_files)
     = Inr (makePart (toBase64 jpeg_header_bytes) ''image/jpeg'') \<and>
   fst (loadFromFile test_env ''/tmp/t/test.webp'' world_with_test_files)
     = Inr (makePart (toBase64 not_a_webp) ''image/webp'') \<and>
   mimeFromExtension ''PHOTO.JPG'' = ''image/jpeg'' \<and>
   mimeFromExtension ''image.PNG'' = ''image/png'' \<and>
   mimeFromExtension ''archive.tar.svg'' = ''image/svg+xml'' \<and>
   mimeFromExtension ''file.xyz'' = ''image/jpeg'' \<and>
   mimeFromExtension ''noext'' = ''image/jpeg''"
proof -
  have jpeg: "detectMimeFromBytes jpeg_header_bytes = Some ''image/jpeg''"
    by (simp add: detectMimeFromBytes_def jpeg_header_bytes_def byte_at_def)
  have none: "detectMimeFromBytes not_a_webp = None"
    by (simp add: detectMimeFromBytes_def not_a_webp_def byte_at_def)
  have lower: "toLowerCase ''JPG'' = ''jpg''" "toLowerCase ''PNG'' = ''png''"
    "toLowerCase ''svg'' = ''svg''" "toLowerCase ''xyz'' = ''xyz''" "toLowerCase ''webp'' = ''webp''"
    by (simp_all add: toLowerCase_def lower_char_def)
  have dat: "files world_with_test_files (resolve test_env ''/tmp/t/test.dat'') = Some jpeg_header_bytes"
    and webp: "files world_with_test_files (resolve test_env ''/tmp/t/test.webp'') = Some not_a_webp"
    by (simp_all add: world_with_test_files_def test_env_def empty_world_def)
  have ne: "jpeg_header_bytes \<noteq> []" "not_a_webp \<noteq> []"
    by (simp_all add: jpeg_header_bytes_def not_a_webp_def)
  from loadFromFile_mime [of world_with_test_files test_env "''/tmp/t/test.dat''"
      jpeg_header_bytes "''image/jpeg''" "''JPG''" "''PHOTO''"]
    loadFromFile_mime [of world_with_test_files test_env "''/tmp/t/test.webp''"
      not_a_webp "''image/webp''" "''webp''" "''/tmp/t/test''"]
    loadFromFile_mime [of world_with_test_files test_env "''noext''"
      not_a_webp "''image/webp''" "''PNG''" "''image''"]
    loadFromFile_mime [of world_with_test_files test_env "''noext''"
      not_a_webp "''image/webp''" "''svg''" "''archive.tar''"]
    loadFromFile_mime [of world_with_test_files test_env "''noext''"
      not_a_webp "''image/webp''" "''xyz''" "''file''"]
    jpeg none lower dat webp ne
  show ?thesis by (simp add: extension_mime_def)
qed

section \<open>Every payload of the loader is an image type\<close>

lemma detectMimeFromBytes_image: "detectMimeFromBytes bs = Some m \<Longrightarrow> prefix ''image/'' m"
  by (auto simp: detectMimeFromBytes_def split: if_splits)

lemma table_image: "prefix ''image/'' (orElse (map_of MIME_EXTENSIONS k) ''image/jpeg'')"
  by (simp add: MIME_EXTENSIONS_def orElse_def)

lemma mimeFromExtension_image: "prefix ''image/'' (mimeFromExtension path)"
  by (simp add: mimeFromExtension_def Let_def table_image)

lemma orElse_detect_image:
  "prefix ''image/'' d \<Longrightarrow> prefix ''image/'' (orElse (detectMimeFromBytes bs) d)"
  by (cases "detectMimeFromBytes bs") (simp_all add: orElse_def detectMimeFromBytes_image)

lemma makePart_imageI:
  "prefix ''image/'' m \<Longrightarrow> \<exists>d m'. makePart a m = makePart d m' \<and> prefix ''image/'' m'"
  by blast

lemma loadFromFile_image:
  "loadFromFile e path w = (Inr p, w') \<Longrightarrow> \<exists>d m. p = makePart d m \<and> startsWith m ''image/''"
  unfolding loadFromFile_def Let_def startsWith_def
  by (auto split: option.splits if_splits intro!: makePart_imageI orElse_detect_image mimeFromExtension_image)

lemma loadFromStdin_image:
  "loadFromStdin w = (Inr p, w') \<Longrightarrow> \<exists>d m. p = makePart d m \<and> startsWith m ''image/''"
  unfolding loadFromStdin_def Let_def startsWith_def
  by (auto split: if_splits intro!: makePart_imageI orElse_detect_image)

lemma loadFromUrl_image:
  "loadFromUrl e url w = (Inr p, w') \<Longrightarrow> \<exists>d m. p = makePart d m \<and> startsWith m ''image/''"
  unfolding loadFromUrl_def Let_def
  by (auto simp: startsWith_def split: fetched.splits if_splits intro!: makePart_imageI orElse_detect_image)

lemma loadFromClipboard_image:
  "loadFromClipboard e w = (Inr p, w') \<Longrightarrow> \<exists>d m. p = makePart d m \<and> startsWith m ''image/''"
  unfolding loadFromClipboard_def Let_def
  by (auto split: prod.splits if_splits sum.splits dest: loadFromFile_image)

text \<open>
  C10: whenever the loader returns a payload, from standard input, the clipboard, a URL
  or a file, the payload is \<open>makePart d m\<close> with a media type \<open>m\<close> that starts with
  \<^verbatim>\<open>image/\<close>.
\<close>

theorem loadImagePart_image_type:
  "loadImagePart e source w = (Inr p, w') \<Longrightarrow>
     \<exists>d m. p = makePart d m \<and> inlineData p = Some \<lparr>blob_mimeType = Some m, blob_data = Some d\<rparr>
       \<and> startsWith m ''image/''"
proof -
  assume "loadImagePart e source w = (Inr p, w')"
  then have "\<exists>d m. p = makePart d m \<and> startsWith m ''image/''"
    unfolding loadImagePart_def
    by (auto split: if_splits
        dest: loadFromStdin_image loadFromClipboard_image loadFromUrl_image loadFromFile_image)
  then show ?thesis by (auto simp: makePart_def)
qed

theorem loadImagePart_image_type_witness:
  "loadImagePart test_env ''-'' (empty_world\<lparr>stdin := [0x00, 0x01, 0x02, 0x03]\<rparr>)
     = (Inr (makePart (toBase64 [0x00, 0x01, 0x02, 0x03]) ''image/png''),
        empty_world\<lparr>stdin := [0x00, 0x01, 0x02, 0x03]\<rparr>) \<and>
   (\<exists>d m. makePart (toBase64 [0x00, 0x01, 0x02, 0x03]) ''image/png'' = makePart d m \<and>
      inlineData (makePart (toBase64 [0x00, 0x01, 0x02, 0x03]) ''image/png'')
        = Some \<lparr>blob_mimeType = Some m, blob_data = Some d\<rparr> \<and>
      startsWith m ''image/'')"
proof -
  have run: "loadImagePart test_env ''-'' (empty_world\<lparr>stdin := [0x00, 0x01, 0x02, 0x03]\<rparr>)
     = (Inr (makePart (toBase64 [0x00, 0x01, 0x02, 0x03]) ''image/png''),
        empty_world\<lparr>stdin := [0x00, 0x01, 0x02, 0x03]\<rparr>)"
    by (simp add: loadImagePart_def loadFromStdin_def detectMimeFromBytes_def byte_at_def
        orElse_def empty_world_def Let_def)
  from loadImagePart_image_type [OF run] run show ?thesis by blast
qed

section \<open>Names of the persisted files\<close>

lemma decimal_digit: "n < 10 \<Longrightarrow> decimal n = [digit n]"
  by (simp add: decimal.simps)

lemma decimal_step: "10 \<le> n \<Longrightarrow> decimal n = decimal (n div 10) @ [digit (n mod 10)]"
  by (subst decimal.simps) simp

lemma save_loop_paths:
  "list_all (\<lambda>p. data p \<noteq> None) imgs \<Longrightarrow>
   fst (save_loop e dir imgs paths w) =
     Inr (paths @ map (\<lambda>i. join e dir (''imgx-'' @ number_text (now e (ticks w + i)) @ ''-''
            @ decimal (length paths + i) @ ''.'' @ image_ext (imgs ! i))) [0..<length imgs]) \<and>
   ticks (snd (save_loop e dir imgs paths w)) = ticks w + length imgs \<and>
   dom (files (snd (save_loop e dir imgs paths w))) =
     dom (files w) \<union> set (map (\<lambda>i. join e dir (''imgx-'' @ number_text (now e (ticks w + i))
            @ ''-'' @ decimal (length paths + i) @ ''.'' @ image_ext (imgs ! i))) [0..<length imgs])"
proof (induction imgs arbitrary: paths w)
  case Nil
  then show ?case by simp
next
  case (Cons img imgs)
  from Cons.prems obtain d where d: "data img = Some d" and rest: "list_all (\<lambda>p. data p \<noteq> None) imgs"
    by auto
  define p where "p = join e dir (''imgx-'' @ number_text (now e (ticks w)) @ ''-''
            @ decimal (length paths) @ ''.'' @ image_ext img)"
  define w' where "w' = console_error (''Saved: '' @ p)
      (w\<lparr>ticks := Suc (ticks w), files := (files w)(p \<mapsto> fromBase64 d)\<rparr>)"
  have step: "save_loop e dir (img # imgs) paths w = save_loop e dir imgs (paths @ [p]) w'"
    by (simp add: d Date_now_def Let_def console_error_def p_def w'_def)
  have t: "ticks w' = Suc (ticks w)" "dom (files w') = insert p (dom (files w))"
    by (simp_all add: w'_def console_error_def)
  have names: "map (\<lambda>i. join e dir (''imgx-'' @ number_text (now e (ticks w + i)) @ ''-''
            @ decimal (length paths + i) @ ''.'' @ image_ext ((img # imgs) ! i)))
          [0..<length (img # imgs)]
      = p # map (\<lambda>i. join e dir (''imgx-'' @ number_text (now e (ticks w' + i)) @ ''-''
            @ decimal (length (paths @ [p]) + i) @ ''.'' @ image_ext (imgs ! i))) [0..<length imgs]"
    by (simp add: t p_def map_upt_Suc del: upt_Suc)
  from Cons.IH [OF rest, of "paths @ [p]" w']
  show ?case unfolding step names by (simp add: t)
qed

text \<open>
  C2 (as amended): every file of one call of \<open>saveImages\<close> is named
  \<^verbatim>\<open>imgx-<t>-<i>.<ext>\<close> where \<open>i\<close> is the zero-based index of the image within the
  call and \<open>t\<close> is the reading of the clock taken when that image is processed: the
  clock is read once per image, not once per call.
\<close>

theorem saveImages_names:
  "list_all (\<lambda>p. data p \<noteq> None) (filter (\<lambda>p. type' p = Image) ps) \<Longrightarrow>
   fst (saveImages e ps dir w) =
     Inr (map (\<lambda>i. join e dir (''imgx-'' @ number_text (now e (ticks w + i)) @ ''-''
            @ decimal i @ ''.'' @ image_ext (filter (\<lambda>p. type' p = Image) ps ! i)))
          [0..<length (filter (\<lambda>p. type' p = Image) ps)]) \<and>
   ticks (snd (saveImages e ps dir w)) = ticks w + length (filter (\<lambda>p. type' p = Image) ps) \<and>
   dom (files (snd (saveImages e ps dir w))) =
     dom (files w) \<union> set (map (\<lambda>i. join e dir (''imgx-'' @ number_text (now e (ticks w + i))
            @ ''-'' @ decimal i @ ''.'' @ image_ext (filter (\<lambda>p. type' p = Image) ps ! i)))
          [0..<length (filter (\<lambda>p. type' p = Image) ps)])"
  using save_loop_paths [of "filter (\<lambda>p. type' p = Image) ps" e dir "[]" w]
    save_loop_paths [of "filter (\<lambda>p. type' p = Image) ps" e dir "[]" "w\<lparr>dirs := insert dir (dirs w)\<rparr>"]
  by (simp add: saveImages_def Let_def del: save_loop.simps)

lemma decimal_0_1: "decimal 0 = ''0''" "decimal 1 = ''1''" "decimal (Suc 0) = ''1''"
  by (simp_all add: decimal_digit digit_def)

lemma number_text_clock:
  "number_text 1700000000000 = ''1700000000000''" "number_text 1700000000001 = ''1700000000001''"
  by (simp_all add: number_text_def decimal_step decimal_digit digit_def)

lemma image_ext_examples:
  "image_ext \<lparr>type' = Image, content = [], mimeType = Some ''image/png'', data = d\<rparr> = ''png''"
  "image_ext \<lparr>type' = Image, content = [], mimeType = Some ''image/jpeg'', data = d\<rparr> = ''jpg''"
  by (simp_all add: image_ext_def item_def orElse_def)

theorem saveImages_names_witness:
  "list_all (\<lambda>p. data p \<noteq> None) (filter (\<lambda>p. type' p = Image) multiple_images) \<and>
   fst (saveImages test_env multiple_images ''out'' empty_world) =
     Inr [''out/imgx-1700000000000-0.png'', ''out/imgx-1700000000001-1.jpg''] \<and>
   ticks (snd (saveImages test_env multiple_images ''out'' empty_world)) = 2 \<and>
   dom (files (snd (saveImages test_env multiple_images ''out'' empty_world))) =
     {''out/imgx-1700000000000-0.png'', ''out/imgx-1700000000001-1.jpg''}"
proof -
  have h: "list_all (\<lambda>p. data p \<noteq> None) (filter (\<lambda>p. type' p = Image) multiple_images)"
    by (simp add: multiple_images_def)
  have up: "[0..<2] = [0, 1]" by (simp add: upt_rec)
  from saveImages_names [OF h, of test_env "''out''" empty_world] h
  show ?thesis
    by (simp add: multiple_images_def up test_env_def empty_world_def join_slash_def
        ticking_clock_def number_text_clock decimal_0_1 image_ext_examples)
qed

theorem saveImages_timestamp_counterexample:
  "fst (saveImages test_env multiple_images ''out'' empty_world) =
     Inr [''out/imgx-1700000000000-0.png'', ''out/imgx-1700000000001-1.jpg''] \<and>
   \<not> (\<exists>t. fst (saveImages test_env multiple_images ''out'' empty_world) =
     Inr [join_slash ''out'' (''imgx-'' @ number_text t @ ''-0.png''),
          join_slash ''out'' (''imgx-'' @ number_text t @ ''-1.jpg'')])"
proof -
  have run: "fst (saveImages test_env multiple_images ''out'' empty_world) =
     Inr [''out/imgx-1700000000000-0.png'', ''out/imgx-1700000000001-1.jpg'']"
    by (simp add: saveImages_def multiple_images_def Date_now_def Let_def console_error_def
        test_env_def empty_world_def join_slash_def ticking_clock_def number_text_clock
        decimal_0_1 image_ext_examples)
  have "\<not> (\<exists>t. Inr [''out/imgx-1700000000000-0.png'', ''out/imgx-1700000000001-1.jpg''] =
     (Inr [join_slash ''out'' (''imgx-'' @ number_text t @ ''-0.png''),
          join_slash ''out'' (''imgx-'' @ number_text t @ ''-1.jpg'')] :: failure + string list))"
  proof
    assume "\<exists>t. Inr [''out/imgx-1700000000000-0.png'', ''out/imgx-1700000000001-1.jpg''] =
     (Inr [join_slash ''out'' (''imgx-'' @ number_text t @ ''-0.png''),
          join_slash ''out'' (''imgx-'' @ number_text t @ ''-1.jpg'')] :: failure + string list)"
    then obtain t where "''1700000000000'' @ ''-0.png'' = number_text t @ ''-0.png''"
      and "''1700000000001'' @ ''-1.jpg'' = number_text t @ ''-1.jpg''"
      by (auto simp: join_slash_def)
    then have "''1700000000000'' = number_text t" and "''1700000000001'' = number_text t"
      by (simp_all only: append_same_eq)
    then have "''1700000000000'' = ''1700000000001''" by (simp only:)
    then show False by simp
  qed
  with run show ?thesis by simp
qed

section \<open>Extension of a persisted image\<close>

lemma split_no_separator: "c \<notin> set s \<Longrightarrow> split c s = [s]"
  by (induction s) auto

lemma split_at_first: "c \<notin> set t \<Longrightarrow> split c (t @ c # s) = t # split c s"
  by (induction t) auto

lemma replace_absent: "\<not> sublist pat s \<Longrightarrow> replace pat rep s = s"
proof (induction s)
  case Nil
  then show ?case by auto
next
  case (Cons x xs)
  from Cons.prems have "\<not> prefix pat (x # xs)" and "\<not> sublist pat xs"
    by (auto simp: sublist_Cons_right)
  with Cons.IH show ?case by simp
qed

lemma subtype_of:
  "CHR ''/'' \<notin> set t \<Longrightarrow> CHR ''/'' \<notin> set s \<Longrightarrow>
     item (split CHR ''/'' (t @ ''/'' @ s)) (Suc 0) = Some s"
  by (simp add: split_at_first split_no_separator item_def)

lemma no_subtype: "CHR ''/'' \<notin> set m \<Longrightarrow> item (split CHR ''/'' m) (Suc 0) = None"
  by (simp add: split_no_separator item_def)

text \<open>
  C3 (as amended): the extension of a persisted image is taken from the media type's
  subtype, the text after the \<^verbatim>\<open>/\<close>: \<^verbatim>\<open>jpeg\<close> becomes \<^verbatim>\<open>jpg\<close>, a subtype that does not
  contain \<^verbatim>\<open>jpeg\<close> is used as it is, and the extension is \<^verbatim>\<open>png\<close> when the media type
  is absent or has no \<^verbatim>\<open>/\<close>. Two images of the types \<^verbatim>\<open>image/png\<close> and \<^verbatim>\<open>image/jpeg\<close>
  are written under names that end in \<^verbatim>\<open>.png\<close> and \<^verbatim>\<open>.jpg\<close>, in this order.
\<close>

theorem image_ext_rules:
  "(mimeType img = None \<longrightarrow> image_ext img = ''png'') \<and>
   (mimeType img = Some m \<and> CHR ''/'' \<notin> set m \<longrightarrow> image_ext img = ''png'') \<and>
   (mimeType img = Some (t @ ''/'' @ ''jpeg'') \<and> CHR ''/'' \<notin> set t \<longrightarrow> image_ext img = ''jpg'') \<and>
   (mimeType img = Some (t @ ''/'' @ s) \<and> CHR ''/'' \<notin> set t \<and> CHR ''/'' \<notin> set s \<and>
    \<not> sublist ''jpeg'' s \<longrightarrow> image_ext img = s) \<and>
   fst (saveImages e
      [\<lparr>type' = Image, content = c1, mimeType = Some ''image/png'', data = Some d1\<rparr>,
       \<lparr>type' = Image, content = c2, mimeType = Some ''image/jpeg'', data = Some d2\<rparr>] dir w)
     = Inr [join e dir (''imgx-'' @ number_text (now e (ticks w)) @ ''-0.png''),
            join e dir (''imgx-'' @ number_text (now e (Suc (ticks w))) @ ''-1.jpg'')]"
proof -
  have absent: "mimeType img = None \<Longrightarrow> image_ext img = ''png''"
    by (simp add: image_ext_def orElse_def)
  have no_slash: "mimeType img = Some m \<Longrightarrow> CHR ''/'' \<notin> set m \<Longrightarrow> image_ext img = ''png''"
    by (simp add: image_ext_def orElse_def no_subtype)
  have jpeg: "mimeType img = Some (t @ ''/'' @ ''jpeg'') \<Longrightarrow> CHR ''/'' \<notin> set t \<Longrightarrow> image_ext img = ''jpg''"
    using subtype_of [of t "''jpeg''"] by (simp add: image_ext_def orElse_def)
  have verbatim: "mimeType img = Some (t @ ''/'' @ s) \<Longrightarrow> CHR ''/'' \<notin> set t \<Longrightarrow> CHR ''/'' \<notin> set s \<Longrightarrow>
      \<not> sublist ''jpeg'' s \<Longrightarrow> image_ext img = s"
    using subtype_of [of t s] by (simp add: image_ext_def orElse_def replace_absent)
  have two: "fst (saveImages e
      [\<lparr>type' = Image, content = c1, mimeType = Some ''image/png'', data = Some d1\<rparr>,
       \<lparr>type' = Image, content = c2, mimeType = Some ''image/jpeg'', data = Some d2\<rparr>] dir w)
     = Inr [join e dir (''imgx-'' @ number_text (now e (ticks w)) @ ''-0.png''),
            join e dir (''imgx-'' @ number_text (now e (Suc (ticks w))) @ ''-1.jpg'')]"
    by (simp add: saveImages_def Date_now_def Let_def console_error_def image_ext_def item_def
        orElse_def decimal.simps digit_def)
  from absent no_slash jpeg verbatim two show ?thesis by blast
qed

theorem image_ext_rules_witness:
  "image_ext (image_of_type None) = ''png'' \<and>
   image_ext (image_of_type (Some ''application'')) = ''png'' \<and>
   image_ext (image_of_type (Some ''image/jpeg'')) = ''jpg'' \<and>
   image_ext (image_of_type (Some ''image/svg+xml'')) = ''svg+xml'' \<and>
   image_ext (image_of_type (Some ''image/png'')) = ''png'' \<and>
   fst (saveImages test_env
      [\<lparr>type' = Image, content = [], mimeType = Some ''image/png'', data = Some ''ZmFrZS1pbWFnZQ==''\<rparr>,
       \<lparr>type' = Image, content = [], mimeType = Some ''image/jpeg'', data = Some ''ZmFrZS1pbWFnZQ==''\<rparr>]
      ''out'' empty_world)
     = Inr [''out/imgx-1700000000000-0.png'', ''out/imgx-1700000000001-1.jpg'']"
proof -
  have no_jpeg: "\<not> sublist ''jpeg'' ''svg+xml''" "\<not> sublist ''jpeg'' ''png''"
    by (simp_all add: sublist_Cons_right)
  have clock: "number_text 1700000000000 = ''1700000000000''"
    "number_text 1700000000001 = ''1700000000001''"
    by (simp_all add: number_text_def decimal.simps digit_def)
  from image_ext_rules [of "image_of_type None" "''application''" "''image''" "''png''"
      test_env "[]" "''ZmFrZS1pbWFnZQ==''" "[]" "''ZmFrZS1pbWFnZQ==''" "''out''" empty_world]
    image_ext_rules [of "image_of_type (Some ''application'')" "''application''" "''image''" "''png''"]
    image_ext_rules [of "image_of_type (Some ''image/jpeg'')" "''application''" "''image''" "''png''"]
    image_ext_rules [of "image_of_type (Some ''image/svg+xml'')" "''application''" "''image''" "''svg+xml''"]
    image_ext_rules [of "image_of_type (Some ''image/png'')" "''application''" "''image''" "''png''"]
    no_jpeg clock
  show ?thesis
    by (simp add: image_of_type_def test_env_def empty_world_def join_slash_def ticking_clock_def)
qed

theorem image_ext_counterexample:
  "image_ext (image_of_type (Some ''image/pjpeg'')) = ''pjpg'' \<and>
   image_ext (image_of_type (Some ''image/pjpeg'')) \<noteq> ''pjpeg'' \<and>
   mimeType (image_of_type (Some ''application'')) \<noteq> None \<and>
   image_ext (image_of_type (Some ''application'')) = ''png''"
  by (simp add: image_ext_def image_of_type_def item_def orElse_def)

section \<open>The temporary file of the clipboard source\<close>

lemma clipboard_tmpPath: "number_text (ticking_clock 0) = ''1700000000000''"
  by (simp add: ticking_clock_def number_text_def decimal.simps digit_def)

text \<open>
  C1: the claim is that the temporary file of the clipboard source is deleted on every
  path. The code deletes it only after \<open>loadFromFile\<close> has returned a part. When the
  helper fails after creating the file, or succeeds and leaves an empty file, the run
  ends inside \<open>loadFromClipboard\<close> or \<open>loadFromFile\<close> and the file stays on disk; when
  the load succeeds the file is gone.
\<close>

theorem loadFromClipboard_temp_file:
  "fst (loadImagePart test_env ''clipboard'' empty_world) = Inl (Exit EXIT_INPUT_ERROR) \<and>
   files (snd (loadImagePart test_env ''clipboard'' empty_world))
     ''/tmp/imgx-clipboard-1700000000000.png'' = Some [] \<and>
   fst (loadImagePart (test_env\<lparr>osascript := clipboard_with_no_bytes\<rparr>) ''clipboard'' empty_world)
     = Inl (Exit EXIT_INPUT_ERROR) \<and>
   files (snd (loadImagePart (test_env\<lparr>osascript := clipboard_with_no_bytes\<rparr>) ''clipboard''
     empty_world)) ''/tmp/imgx-clipboard-1700000000000.png'' = Some [] \<and>
   fst (loadImagePart (test_env\<lparr>osascript := clipboard_with_png\<rparr>) ''clipboard'' empty_world)
     = Inr (makePart (toBase64 minimal_png) ''image/png'') \<and>
   files (snd (loadImagePart (test_env\<lparr>osascript := clipboard_with_png\<rparr>) ''clipboard''
     empty_world)) ''/tmp/imgx-clipboard-1700000000000.png'' = None"
proof -
  have t: "Date_now e empty_world = (now e 0, empty_world\<lparr>ticks := Suc 0\<rparr>)" for e
    by (simp add: Date_now_def empty_world_def)
  have png: "detectMimeFromBytes minimal_png = Some ''image/png''" "minimal_png \<noteq> []"
    by (simp_all add: detectMimeFromBytes_def minimal_png_def byte_at_def)
  have failed: "loadFromClipboard test_env empty_world =
      (Inl (Exit EXIT_INPUT_ERROR),
       console_error ''No image data in clipboard''
         (console_error ''Error: No image data in clipboard''
           (empty_world\<lparr>ticks := Suc 0,
              files := [''/tmp/imgx-clipboard-1700000000000.png'' \<mapsto> []]\<rparr>)))"
    by (simp add: loadFromClipboard_def t test_env_def clipboard_without_image_def
        clipboard_tmpPath trim_def is_space_def Let_def)
      (simp add: empty_world_def)
  have empty: "loadFromClipboard (test_env\<lparr>osascript := clipboard_with_no_bytes\<rparr>) empty_world =
      (Inl (Exit EXIT_INPUT_ERROR),
       console_error ''Error: File is empty: /tmp/imgx-clipboard-1700000000000.png''
         (empty_world\<lparr>ticks := Suc 0,
            files := [''/tmp/imgx-clipboard-1700000000000.png'' \<mapsto> []]\<rparr>))"
    by (simp add: loadFromClipboard_def t test_env_def clipboard_with_no_bytes_def
        clipboard_tmpPath loadFromFile_def Let_def)
      (simp add: empty_world_def)
  have loaded: "loadFromClipboard (test_env\<lparr>osascript := clipboard_with_png\<rparr>) empty_world =
      (Inr (makePart (toBase64 minimal_png) ''image/png''),
       empty_world\<lparr>ticks := Suc 0, files := Map.empty\<rparr>)"
    by (simp add: loadFromClipboard_def t test_env_def clipboard_with_png_def
        clipboard_tmpPath loadFromFile_def png orElse_def unlink_if_exists_def
        Let_def)
      (simp add: empty_world_def)
  show ?thesis
    by (simp add: loadImagePart_def failed empty loaded console_error_def)
qed

end
